theory Spec2Isabelle
  imports Main
begin

section \<open>JavaScript strings and values\<close>

text \<open>
  A JavaScript string is a sequence of UTF-16 code units; a code unit is a natural number
  here. Text that is fixed in the source (field names, response messages) stays an
  Isabelle \<open>string\<close>; \<open>js\<close> turns such a literal into code units where the program
  mixes it with request data.
\<close>

type_synonym jstring = "nat list"

definition js :: "string \<Rightarrow> jstring" where
  "js s = map of_char s"

text \<open>
  What \<open>express.json()\<close> hands to a handler: the values of JSON, and \<open>undefined\<close> for a
  property the body does not have. Numbers are kept integral: the handlers only test
  them for truthiness and store them.
\<close>

datatype val = JUndefined | JNull | JBool bool | JNum int | JStr jstring
  | JArr "val list" | JObj "(string \<times> val) list"

type_synonym object = "string \<rightharpoonup> val"

definition get :: "object \<Rightarrow> string \<Rightarrow> val" where
  "get b k = (case b k of None \<Rightarrow> JUndefined | Some v \<Rightarrow> v)"

definition truthy :: "val \<Rightarrow> bool" where
  "truthy v = (case v of JUndefined \<Rightarrow> False | JNull \<Rightarrow> False | JBool b \<Rightarrow> b
     | JNum n \<Rightarrow> n \<noteq> 0 | JStr s \<Rightarrow> s \<noteq> [] | JArr xs \<Rightarrow> True | JObj kvs \<Rightarrow> True)"

text \<open>The operator \<open>a || b\<close>: the left operand itself when it is truthy.\<close>

definition or_else :: "val \<Rightarrow> val \<Rightarrow> val" where
  "or_else a b = (if truthy a then a else b)"

text \<open>
  White space and line terminators of ECMAScript, which \<open>String.prototype.trim\<close> strips
  and the class \<open>\s\<close> of a regular expression matches: TAB, LF, VT, FF, CR, SP, NBSP,
  U+1680, U+2000 to U+200A, U+2028, U+2029, U+202F, U+205F, U+3000 and U+FEFF.
\<close>

definition is_ws :: "nat \<Rightarrow> bool" where
  "is_ws c = (c \<in> set [9, 10, 11, 12, 13, 32, 160, 5760, 8232, 8233, 8239, 8287, 12288, 65279]
     \<or> (8192 \<le> c \<and> c \<le> 8202))"

definition trim :: "jstring \<Rightarrow> jstring" where
  "trim s = rev (dropWhile is_ws (rev (dropWhile is_ws s)))"

text \<open>
  Exceptions are values. Every handler body sits in \<open>try { ... } catch (err) { 500 }\<close>,
  so a thrown exception of either kind ends in the handler's 500 response.
\<close>

datatype exn = TypeError | BSONError | StoreError

definition bindE :: "exn + 'a \<Rightarrow> ('a \<Rightarrow> exn + 'b) \<Rightarrow> exn + 'b" where
  "bindE m f = (case m of Inl e \<Rightarrow> Inl e | Inr x \<Rightarrow> f x)"

text \<open>
  \<open>x?.trim()\<close>: \<open>undefined\<close> when \<open>x\<close> is \<open>undefined\<close> or \<open>null\<close>, the trimmed string when
  \<open>x\<close> is a string, and a TypeError for every other value (it has no method \<open>trim\<close>).
\<close>

definition opt_trim :: "val \<Rightarrow> exn + jstring option" where
  "opt_trim v = (case v of JUndefined \<Rightarrow> Inr None | JNull \<Rightarrow> Inr None
     | JStr s \<Rightarrow> Inr (Some (trim s)) | _ \<Rightarrow> Inl TypeError)"

text \<open>The negation \<open>!r\<close> of such a result: true for \<open>undefined\<close> and for the empty string.\<close>

definition blank :: "jstring option \<Rightarrow> bool" where
  "blank r = (case r of None \<Rightarrow> True | Some s \<Rightarrow> s = [])"

text \<open>\<open>x.trim()\<close> without the optional chain.\<close>

definition trim_call :: "val \<Rightarrow> exn + jstring" where
  "trim_call v = (case v of JStr s \<Rightarrow> Inr (trim s) | _ \<Rightarrow> Inl TypeError)"

text \<open>\<open>Array.prototype.join\<close> on an array of strings.\<close>

fun join :: "string \<Rightarrow> string list \<Rightarrow> string" where
  "join sep [] = []"
| "join sep [x] = x"
| "join sep (x # y # r) = x @ sep @ join sep (y # r)"

section \<open>The document store\<close>

text \<open>
  A job document as the handlers and the seed route write it: the create route stores a
  string \<open>category\<close>, the seed route an array \<open>categories\<close>; \<open>type\<close>, \<open>featured\<close> and
  \<open>logo\<close> hold whatever value the request carried. \<open>created_at\<close> is a Date, in
  milliseconds.
\<close>

record job =
  title :: jstring
  company :: jstring
  location :: jstring
  category :: "jstring option"
  categories :: "jstring list option"
  description :: jstring
  type :: val
  featured :: val
  logo :: val
  created_at :: int

record 'o application =
  job_id :: 'o
  name :: jstring
  email :: jstring
  resume_link :: jstring
  cover_note :: jstring
  applied_at :: int

text \<open>
  A collection is an association list from \<open>_id\<close> to document, in insertion order. The
  type \<open>'o\<close> is the driver's ObjectId.
\<close>

record 'o db =
  jobsCollection :: "('o \<times> job) list"
  applicationsCollection :: "('o \<times> 'o application) list"

text \<open>
  What one request meets outside the program: whether the store answers, the clock
  (\<open>new Date()\<close>), and the \<open>_id\<close> the driver generates for an inserted document.
\<close>

record 'o tick =
  store_up :: bool
  now :: int
  gen_id :: 'o

text \<open>
  \<open>insertOne\<close>: the driver gives the document the generated \<open>_id\<close>; the unique index on
  \<open>_id\<close> rejects one that is already there.
\<close>

definition insertOne :: "'o tick \<Rightarrow> 'd \<Rightarrow> ('o \<times> 'd) list \<Rightarrow> exn + ('o \<times> ('o \<times> 'd) list)" where
  "insertOne t doc coll =
     (if \<not> store_up t then Inl StoreError
      else if gen_id t \<in> fst ` set coll then Inl StoreError
      else Inr (gen_id t, coll @ [(gen_id t, doc)]))"

text \<open>\<open>findOne({ _id: i })\<close>: the first document with that \<open>_id\<close>, or \<open>null\<close>.\<close>

definition findOne :: "'o tick \<Rightarrow> 'o \<Rightarrow> ('o \<times> 'd) list \<Rightarrow> exn + 'd option" where
  "findOne t i coll = (if store_up t then Inr (map_of coll i) else Inl StoreError)"

text \<open>\<open>deleteOne({ _id: i })\<close>: removes the first such document; gives \<open>deletedCount\<close>.\<close>

fun remove_first :: "'o \<Rightarrow> ('o \<times> 'd) list \<Rightarrow> ('o \<times> 'd) list" where
  "remove_first i [] = []"
| "remove_first i (p # ps) = (if fst p = i then ps else p # remove_first i ps)"

definition deleteOne :: "'o tick \<Rightarrow> 'o \<Rightarrow> ('o \<times> 'd) list \<Rightarrow> exn + (nat \<times> ('o \<times> 'd) list)" where
  "deleteOne t i coll =
     (if \<not> store_up t then Inl StoreError
      else if i \<in> fst ` set coll then Inr (1, remove_first i coll)
      else Inr (0, coll))"

section \<open>Responses\<close>

datatype 'o body =
    ErrorBody string
  | MessageBody string
  | JobBody 'o job
  | JobsBody "('o \<times> job) list" nat
  | JobCreatedBody string 'o job
  | ApplicationCreatedBody string 'o

record 'o response =
  status :: nat
  body :: "'o body"

definition respond :: "nat \<Rightarrow> 'o body \<Rightarrow> 'o response" where
  "respond c b = \<lparr>status = c, body = b\<rparr>"

section \<open>POST /api/jobs\<close>

text \<open>
  \<open>req.body\<close> is the object that \<open>express.json()\<close> parsed, or \<open>undefined\<close> (here
  \<open>None\<close>) when it parsed none and the Express version leaves the property unset. A
  parsed array has none of the properties the handlers read, as an empty object.
  The first statement of a handler, \<open>const { ... } = req.body\<close>, throws a TypeError on
  \<open>undefined\<close>.
\<close>

definition destructure :: "object option \<Rightarrow> exn + object" where
  "destructure req_body = (case req_body of None \<Rightarrow> Inl TypeError | Some b \<Rightarrow> Inr b)"

definition required_fields :: "string list" where
  "required_fields = [''title'', ''company'', ''location'', ''category'', ''description'']"

text \<open>
  The five statements \<open>if (!f?.trim()) missing.push('f')\<close>, in the order of the source.
  A TypeError in any of them leaves the \<open>try\<close> block.
\<close>

fun collect_missing :: "object \<Rightarrow> string list \<Rightarrow> exn + string list" where
  "collect_missing b [] = Inr []"
| "collect_missing b (k # ks) =
     bindE (opt_trim (get b k)) (\<lambda>r.
     bindE (collect_missing b ks) (\<lambda>m.
       Inr (if blank r then k # m else m)))"

definition post_api_jobs_try ::
  "'o tick \<Rightarrow> object option \<Rightarrow> 'o db \<Rightarrow> exn + ('o response \<times> 'o db)" where
  "post_api_jobs_try t req_body d =
     bindE (destructure req_body) (\<lambda>b.
     bindE (collect_missing b required_fields) (\<lambda>missing.
       if missing \<noteq> [] then
         Inr (respond 400 (ErrorBody (''Missing required fields: '' @ join '', '' missing)), d)
       else
         bindE (trim_call (get b ''title'')) (\<lambda>ti.
         bindE (trim_call (get b ''company'')) (\<lambda>co.
         bindE (trim_call (get b ''location'')) (\<lambda>lo.
         bindE (trim_call (get b ''category'')) (\<lambda>ca.
         bindE (trim_call (get b ''description'')) (\<lambda>de.
           let newJob = \<lparr>title = ti, company = co, location = lo, category = Some ca,
                 categories = None, description = de,
                 type = or_else (get b ''type'') (JStr (js ''Full Time'')),
                 featured = or_else (get b ''featured'') (JBool False),
                 logo = or_else (get b ''logo'') JNull,
                 created_at = now t\<rparr>
           in bindE (insertOne t newJob (jobsCollection d)) (\<lambda>(i, coll).
                Inr (respond 201 (JobCreatedBody ''Job created successfully'' i newJob),
                     d\<lparr>jobsCollection := coll\<rparr>)))))))))"

definition post_api_jobs ::
  "'o tick \<Rightarrow> object option \<Rightarrow> 'o db \<Rightarrow> 'o response \<times> 'o db" where
  "post_api_jobs t req_body d =
     (case post_api_jobs_try t req_body d of
        Inl e \<Rightarrow> (respond 500 (ErrorBody ''Failed to create job''), d)
      | Inr r \<Rightarrow> r)"

section \<open>Libraries the handlers call\<close>

text \<open>
  The numbers \<open>parseInt\<close> can return.
\<close>

datatype jsnum = NaN | Fin int

text \<open>
  Code the repository calls but does not contain is a parameter of the model:
  \<^item> \<open>ObjectId_isValid\<close> is \<open>ObjectId.isValid\<close> of the bson library;
  \<^item> \<open>ObjectId_new\<close> is \<open>new ObjectId(v)\<close>, \<open>None\<close> when the constructor throws;
  \<^item> \<open>URL_new\<close> tells whether \<open>new URL(v)\<close> returns rather than throws;
  \<^item> \<open>toLowerCase\<close> is \<open>String.prototype.toLowerCase\<close>;
  \<^item> \<open>ToString\<close> is the conversion of a value that is not a string to a string;
  \<^item> \<open>regex_i\<close> compiles a pattern for the store's operator \<open>$regex\<close> with option
    \<open>i\<close>: \<open>None\<close> when the store rejects the pattern, else the test it performs on a
    string;
  \<^item> \<open>limit_other\<close> is what the cursor does with a limit that is negative, NaN or not
    below \<open>2^53\<close>: given the number of sorted matches, how many leading ones it returns,
    \<open>None\<close> when the store rejects the command.
\<close>

record 'o lib =
  ObjectId_isValid :: "val \<Rightarrow> bool"
  ObjectId_new :: "val \<Rightarrow> 'o option"
  URL_new :: "val \<Rightarrow> bool"
  toLowerCase :: "jstring \<Rightarrow> jstring"
  ToString :: "val \<Rightarrow> jstring"
  regex_i :: "jstring \<Rightarrow> (jstring \<Rightarrow> bool) option"
  limit_other :: "jsnum \<Rightarrow> nat \<Rightarrow> nat option"

definition new_ObjectId :: "'o lib \<Rightarrow> val \<Rightarrow> exn + 'o" where
  "new_ObjectId L v = (case ObjectId_new L v of None \<Rightarrow> Inl BSONError | Some i \<Rightarrow> Inr i)"

section \<open>GET /api/jobs/:id and DELETE /api/jobs/:id\<close>



definition delete_api_jobs_id_try ::
  "'o lib \<Rightarrow> 'o tick \<Rightarrow> jstring \<Rightarrow> 'o db \<Rightarrow> exn + ('o response \<times> 'o db)" where
  "delete_api_jobs_id_try L t ident d =
     (if \<not> ObjectId_isValid L (JStr ident) then
        Inr (respond 400 (ErrorBody ''Invalid job ID''), d)
      else
        bindE (new_ObjectId L (JStr ident)) (\<lambda>i.
        bindE (deleteOne t i (jobsCollection d)) (\<lambda>(deletedCount, coll).
          if deletedCount = 0 then
            Inr (respond 404 (ErrorBody ''Job not found''), d\<lparr>jobsCollection := coll\<rparr>)
          else
            Inr (respond 200 (MessageBody ''Job deleted successfully''),
                 d\<lparr>jobsCollection := coll\<rparr>))))"

definition delete_api_jobs_id ::
  "'o lib \<Rightarrow> 'o tick \<Rightarrow> jstring \<Rightarrow> 'o db \<Rightarrow> 'o response \<times> 'o db" where
  "delete_api_jobs_id L t ident d =
     (case delete_api_jobs_id_try L t ident d of
        Inl e \<Rightarrow> (respond 500 (ErrorBody ''Failed to delete job''), d)
      | Inr r \<Rightarrow> r)"

section \<open>POST /api/applications\<close>

text \<open>
  The pattern \<open>/^[^\s@]+@[^\s@]+\.[^\s@]+$/\<close> is a sequence of pieces, each a literal
  code unit or one-or-more code units of a class. \<open>rmatch\<close> decides whether the whole
  string matches the sequence, as \<open>^\<close> and \<open>$\<close> demand without the flag \<open>m\<close>.
\<close>

datatype piece = Lit nat | Plus "nat \<Rightarrow> bool"

fun rmatch :: "piece list \<Rightarrow> jstring \<Rightarrow> bool" where
  "rmatch [] s = (s = [])"
| "rmatch (Lit c # r) [] = False"
| "rmatch (Lit c # r) (x # xs) = (x = c \<and> rmatch r xs)"
| "rmatch (Plus p # r) [] = False"
| "rmatch (Plus p # r) (x # xs) = (p x \<and> (rmatch (Plus p # r) xs \<or> rmatch r xs))"

text \<open>The class \<open>[^\s@]\<close>; the code unit of \<open>@\<close> is 64, that of the full stop 46.\<close>

definition not_space_at :: "nat \<Rightarrow> bool" where
  "not_space_at c = (\<not> is_ws c \<and> c \<noteq> 64)"

definition emailRegex :: "piece list" where
  "emailRegex = [Plus not_space_at, Lit 64, Plus not_space_at, Lit 46, Plus not_space_at]"

text \<open>\<open>regex.test(v)\<close> converts its argument to a string first.\<close>

definition RegExp_test :: "'o lib \<Rightarrow> piece list \<Rightarrow> val \<Rightarrow> bool" where
  "RegExp_test L r v = rmatch r (case v of JStr s \<Rightarrow> s | _ \<Rightarrow> ToString L v)"

text \<open>
  The condition \<open>!job_id || !name?.trim() || !email?.trim() || !resume_link?.trim() ||
  !cover_note?.trim()\<close>, evaluated from the left and stopping at the first true operand.
\<close>

definition fields_missing :: "object \<Rightarrow> exn + bool" where
  "fields_missing b =
     (if \<not> truthy (get b ''job_id'') then Inr True else
      bindE (opt_trim (get b ''name'')) (\<lambda>n. if blank n then Inr True else
      bindE (opt_trim (get b ''email'')) (\<lambda>e. if blank e then Inr True else
      bindE (opt_trim (get b ''resume_link'')) (\<lambda>r. if blank r then Inr True else
      bindE (opt_trim (get b ''cover_note'')) (\<lambda>c. Inr (blank c))))))"

definition post_api_applications_try ::
  "'o lib \<Rightarrow> 'o tick \<Rightarrow> object option \<Rightarrow> 'o db \<Rightarrow> exn + ('o response \<times> 'o db)" where
  "post_api_applications_try L t req_body d =
     bindE (destructure req_body) (\<lambda>b.
     bindE (fields_missing b) (\<lambda>missing.
       if missing then Inr (respond 400 (ErrorBody ''All fields are required''), d)
       else if \<not> RegExp_test L emailRegex (get b ''email'') then
         Inr (respond 400 (ErrorBody ''Invalid email format''), d)
       else if \<not> URL_new L (get b ''resume_link'') then
         Inr (respond 400 (ErrorBody ''Resume link must be a valid URL''), d)
       else if \<not> ObjectId_isValid L (get b ''job_id'') then
         Inr (respond 400 (ErrorBody ''Invalid job ID''), d)
       else
         bindE (new_ObjectId L (get b ''job_id'')) (\<lambda>i.
         bindE (findOne t i (jobsCollection d)) (\<lambda>found.
           case found of
             None \<Rightarrow> Inr (respond 404 (ErrorBody ''Job not found''), d)
           | Some j \<Rightarrow>
               bindE (new_ObjectId L (get b ''job_id'')) (\<lambda>ji.
               bindE (trim_call (get b ''name'')) (\<lambda>na.
               bindE (trim_call (get b ''email'')) (\<lambda>em.
               bindE (trim_call (get b ''resume_link'')) (\<lambda>re.
               bindE (trim_call (get b ''cover_note'')) (\<lambda>co.
                 let application = \<lparr>job_id = ji, name = na, email = toLowerCase L em,
                       resume_link = re, cover_note = co, applied_at = now t\<rparr>
                 in bindE (insertOne t application (applicationsCollection d)) (\<lambda>(a, coll).
                      Inr (respond 201 (ApplicationCreatedBody
                             ''Application submitted successfully'' a),
                           d\<lparr>applicationsCollection := coll\<rparr>)))))))))))"

definition post_api_applications ::
  "'o lib \<Rightarrow> 'o tick \<Rightarrow> object option \<Rightarrow> 'o db \<Rightarrow> 'o response \<times> 'o db" where
  "post_api_applications L t req_body d =
     (case post_api_applications_try L t req_body d of
        Inl e \<Rightarrow> (respond 500 (ErrorBody ''Failed to submit application''), d)
      | Inr r \<Rightarrow> r)"

section \<open>GET /api/jobs\<close>

text \<open>
  The query string, each parameter given at most once, so that Express delivers it as a
  string; \<open>None\<close> is a parameter the request does not have.
\<close>

record params =
  p_keyword :: "jstring option"
  p_location :: "jstring option"
  p_category :: "jstring option"
  p_featured :: "jstring option"
  p_limit :: "jstring option"
  p_sort :: "jstring option"

text \<open>The test \<open>if (x)\<close> on a parameter: it holds for a string that is not empty.\<close>

definition if_given :: "jstring option \<Rightarrow> jstring option" where
  "if_given x = (case x of None \<Rightarrow> None | Some s \<Rightarrow> if s = [] then None else Some s)"

text \<open>
  The filter object. \<open>Regex f p\<close> is \<open>{ f: { $regex: p, $options: 'i' } }\<close>,
  \<open>ElemMatchRegex f p\<close> is \<open>{ f: { $elemMatch: { $regex: p, $options: 'i' } } }\<close> and
  \<open>Or cs\<close> is \<open>{ $or: cs }\<close>. The record holds the four keys the handler may set.
\<close>

datatype cond = Regex string jstring | ElemMatchRegex string jstring | Or "cond list"

record query =
  q_or :: "cond list option"
  q_and :: "cond list option"
  q_location :: "jstring option"
  q_featured :: "val option"

definition build_query :: "params \<Rightarrow> query" where
  "build_query p =
     (let q0 = \<lparr>q_or = None, q_and = None, q_location = None, q_featured = None\<rparr>;
          q1 = (case if_given (p_keyword p) of
                  None \<Rightarrow> q0
                | Some keyword \<Rightarrow>
                    q0\<lparr>q_or := Some [Regex ''title'' keyword, Regex ''company'' keyword,
                                     Regex ''description'' keyword]\<rparr>);
          q2 = (case if_given (p_location p) of
                  None \<Rightarrow> q1
                | Some loc \<Rightarrow> q1\<lparr>q_location := Some loc\<rparr>);
          q3 = (case if_given (p_category p) of
                  None \<Rightarrow> q2
                | Some cat \<Rightarrow>
                    let ors = (case q_or q2 of None \<Rightarrow> [] | Some cs \<Rightarrow> cs);
                        catConds = [Regex ''category'' cat, ElemMatchRegex ''categories'' cat]
                    in if ors \<noteq> [] then q2\<lparr>q_and := Some [Or ors, Or catConds], q_or := None\<rparr>
                       else q2\<lparr>q_or := Some catConds\<rparr>)
      in if p_featured p = Some (js ''true'') then q3\<lparr>q_featured := Some (JBool True)\<rparr>
         else q3)"

text \<open>
  How the store reads the filter: a regular expression applies to a string field, an
  \<open>$elemMatch\<close> to the elements of an array field, an equality to the field's value or
  to an element of an array value; the keys of the filter hold together.
\<close>

definition rx :: "'o lib \<Rightarrow> jstring \<Rightarrow> jstring \<Rightarrow> bool" where
  "rx L p s = (case regex_i L p of None \<Rightarrow> False | Some f \<Rightarrow> f s)"

definition str_field :: "job \<Rightarrow> string \<Rightarrow> jstring option" where
  "str_field j f =
     (if f = ''title'' then Some (title j)
      else if f = ''company'' then Some (company j)
      else if f = ''location'' then Some (location j)
      else if f = ''description'' then Some (description j)
      else if f = ''category'' then category j
      else None)"

definition arr_field :: "job \<Rightarrow> string \<Rightarrow> jstring list option" where
  "arr_field j f = (if f = ''categories'' then categories j else None)"

fun holds :: "'o lib \<Rightarrow> job \<Rightarrow> cond \<Rightarrow> bool" where
  "holds L j (Regex f p) = (case str_field j f of None \<Rightarrow> False | Some s \<Rightarrow> rx L p s)"
| "holds L j (ElemMatchRegex f p) =
     (case arr_field j f of None \<Rightarrow> False | Some xs \<Rightarrow> list_ex (rx L p) xs)"
| "holds L j (Or cs) = list_ex (holds L j) cs"

definition eq_match :: "val \<Rightarrow> val \<Rightarrow> bool" where
  "eq_match v w = (v = w \<or> (case v of JArr xs \<Rightarrow> w \<in> set xs | _ \<Rightarrow> False))"

definition matches :: "'o lib \<Rightarrow> query \<Rightarrow> job \<Rightarrow> bool" where
  "matches L q j =
     ((case q_or q of None \<Rightarrow> True | Some cs \<Rightarrow> list_ex (holds L j) cs)
      \<and> (case q_and q of None \<Rightarrow> True | Some cs \<Rightarrow> list_all (holds L j) cs)
      \<and> (case q_location q of None \<Rightarrow> True | Some p \<Rightarrow> rx L p (location j))
      \<and> (case q_featured q of None \<Rightarrow> True | Some w \<Rightarrow> eq_match (featured j) w))"

text \<open>The patterns of a filter; the store rejects a filter with one it cannot compile.\<close>

fun cond_patterns :: "cond \<Rightarrow> jstring list" where
  "cond_patterns (Regex f p) = [p]"
| "cond_patterns (ElemMatchRegex f p) = [p]"
| "cond_patterns (Or cs) = concat (map cond_patterns cs)"

definition query_patterns :: "query \<Rightarrow> jstring list" where
  "query_patterns q =
     concat (map cond_patterns (case q_or q of None \<Rightarrow> [] | Some cs \<Rightarrow> cs))
     @ concat (map cond_patterns (case q_and q of None \<Rightarrow> [] | Some cs \<Rightarrow> cs))
     @ (case q_location q of None \<Rightarrow> [] | Some p \<Rightarrow> [p])"

text \<open>
  The sort specification \<open>{ created_at: dir }\<close>: descending for a negative direction,
  ascending otherwise. Documents with equal dates keep their order.
\<close>

datatype sort_spec = ByCreatedAt int

definition sortOption :: "params \<Rightarrow> sort_spec" where
  "sortOption p =
     (if p_sort p = Some (js ''newest'') then ByCreatedAt (- 1) else ByCreatedAt (- 1))"

fun cursor_sort :: "sort_spec \<Rightarrow> ('o \<times> job) list \<Rightarrow> ('o \<times> job) list" where
  "cursor_sort (ByCreatedAt dir) xs =
     (if dir < 0 then sort_key (\<lambda>x. - created_at (snd x)) xs
      else sort_key (\<lambda>x. created_at (snd x)) xs)"

text \<open>
  \<open>parseInt\<close> of a string, no radix given: leading white space is skipped, then an
  optional sign, then \<open>0x\<close> or \<open>0X\<close> selects radix 16, and the longest run of digits of
  the radix is read; NaN when that run is empty. (The result is exact below \<open>2^53\<close>.)
\<close>

definition digit_of :: "nat \<Rightarrow> nat option" where
  "digit_of c =
     (if 48 \<le> c \<and> c \<le> 57 then Some (c - 48)
      else if 97 \<le> c \<and> c \<le> 122 then Some (c - 87)
      else if 65 \<le> c \<and> c \<le> 90 then Some (c - 55)
      else None)"

definition is_digit :: "nat \<Rightarrow> nat \<Rightarrow> bool" where
  "is_digit radix c = (case digit_of c of None \<Rightarrow> False | Some v \<Rightarrow> v < radix)"

definition digits_value :: "nat \<Rightarrow> jstring \<Rightarrow> nat" where
  "digits_value radix ds =
     foldl (\<lambda>a c. a * radix + (case digit_of c of None \<Rightarrow> 0 | Some v \<Rightarrow> v)) 0 ds"

definition parseInt :: "jstring \<Rightarrow> jsnum" where
  "parseInt s =
     (let s1 = dropWhile is_ws s;
          neg = (case s1 of [] \<Rightarrow> False | c # r \<Rightarrow> c = 45);
          s2 = (case s1 of [] \<Rightarrow> [] | c # r \<Rightarrow> if c = 43 \<or> c = 45 then r else s1);
          hex = (case s2 of a # b # r \<Rightarrow> a = 48 \<and> (b = 120 \<or> b = 88) | _ \<Rightarrow> False);
          radix = (if hex then 16 else 10);
          s3 = (if hex then drop 2 s2 else s2);
          ds = takeWhile (is_digit radix) s3
      in if ds = [] then NaN
         else Fin ((if neg then - 1 else 1) * int (digits_value radix ds)))"

text \<open>\<open>limit ? parseInt(limit) : 0\<close>.\<close>

definition limitNum :: "params \<Rightarrow> jsnum" where
  "limitNum p = (case if_given (p_limit p) of None \<Rightarrow> Fin 0 | Some l \<Rightarrow> parseInt l)"

text \<open>
  \<open>cursor.limit(n)\<close>: no limit for 0, the first \<open>n\<close> documents for a positive \<open>n\<close>.
\<close>

definition cursor_limit :: "'o lib \<Rightarrow> jsnum \<Rightarrow> 'a list \<Rightarrow> exn + 'a list" where
  "cursor_limit L n xs =
     (case n of
        Fin k \<Rightarrow>
          if k = 0 then Inr xs
          else if 0 < k \<and> k < 2 ^ 53 then Inr (take (nat k) xs)
          else (case limit_other L n (length xs) of
                  None \<Rightarrow> Inl StoreError | Some m \<Rightarrow> Inr (take m xs))
      | NaN \<Rightarrow> (case limit_other L n (length xs) of
                  None \<Rightarrow> Inl StoreError | Some m \<Rightarrow> Inr (take m xs)))"

text \<open>\<open>jobsCollection.find(query).sort(sortOption).limit(limitNum).toArray()\<close>.\<close>

definition find_sort_limit ::
  "'o lib \<Rightarrow> 'o tick \<Rightarrow> query \<Rightarrow> sort_spec \<Rightarrow> jsnum \<Rightarrow> ('o \<times> job) list \<Rightarrow> exn + ('o \<times> job) list" where
  "find_sort_limit L t q so n coll =
     (if \<not> store_up t then Inl StoreError
      else if \<not> list_all (\<lambda>p. regex_i L p \<noteq> None) (query_patterns q) then Inl StoreError
      else cursor_limit L n (cursor_sort so (filter (\<lambda>x. matches L q (snd x)) coll)))"

definition get_api_jobs :: "'o lib \<Rightarrow> 'o tick \<Rightarrow> params \<Rightarrow> 'o db \<Rightarrow> 'o response" where
  "get_api_jobs L t p d =
     (case find_sort_limit L t (build_query p) (sortOption p) (limitNum p) (jobsCollection d) of
        Inl e \<Rightarrow> respond 500 (ErrorBody ''Failed to fetch jobs'')
      | Inr jobs \<Rightarrow> respond 200 (JobsBody jobs (length jobs)))"

section \<open>Predicates on request values\<close>

text \<open>A value the optional chain \<open>v?.trim()\<close> accepts: absent, \<open>null\<close> or a string.\<close>

definition string_or_absent :: "val \<Rightarrow> bool" where
  "string_or_absent v =
     (case v of JUndefined \<Rightarrow> True | JNull \<Rightarrow> True | JStr s \<Rightarrow> True | _ \<Rightarrow> False)"

text \<open>A field that is absent (or \<open>null\<close>), or a string that is empty after trimming.\<close>

definition absent_or_empty :: "val \<Rightarrow> bool" where
  "absent_or_empty v =
     (case v of JUndefined \<Rightarrow> True | JNull \<Rightarrow> True | JStr s \<Rightarrow> trim s = [] | _ \<Rightarrow> False)"

text \<open>A field that is a string and not empty after trimming.\<close>

definition filled :: "val \<Rightarrow> bool" where
  "filled v = (case v of JStr s \<Rightarrow> trim s \<noteq> [] | _ \<Rightarrow> False)"

text \<open>
  A case-insensitive substring, in the words of the specification: \<open>contains_ci p s\<close>
  holds when \<open>p\<close> occurs in \<open>s\<close> at some position, letters \<open>A\<close> to \<open>Z\<close> counting as
  \<open>a\<close> to \<open>z\<close>.
\<close>

definition lower :: "nat \<Rightarrow> nat" where
  "lower c = (if 65 \<le> c \<and> c \<le> 90 then c + 32 else c)"

fun contains_ci :: "jstring \<Rightarrow> jstring \<Rightarrow> bool" where
  "contains_ci p [] = (p = [])"
| "contains_ci p (x # xs) =
     (map lower (take (length p) (x # xs)) = map lower p \<or> contains_ci p xs)"

text \<open>
  The metacharacters of a regular expression: backslash, circumflex, dollar, full stop,
  bar, question mark, star, plus, and the round, square and curly brackets. A pattern
  without any of them is plain: a regular expression that stands for itself.
\<close>

definition is_meta :: "nat \<Rightarrow> bool" where
  "is_meta c = (c \<in> set [92, 94, 36, 46, 124, 63, 42, 43, 40, 41, 91, 93, 123, 125])"

definition plain :: "jstring \<Rightarrow> bool" where
  "plain p = (\<not> list_ex is_meta p)"

section \<open>A sample library, store and requests\<close>

text \<open>
  One instance of the library parameters, for applying the theorems to concrete requests:
  an ObjectId is a string of 24 hexadecimal digits, kept in lower case; a URL is accepted
  when it starts with \<open>https://\<close> and has no white space; patterns are searched by
  \<open>sample_regex\<close> below; any limit outside the modelled range is rejected. The real libraries accept more than this.
\<close>

definition is_hex :: "nat \<Rightarrow> bool" where
  "is_hex c = ((48 \<le> c \<and> c \<le> 57) \<or> (97 \<le> c \<and> c \<le> 102) \<or> (65 \<le> c \<and> c \<le> 70))"

definition hex24 :: "val \<Rightarrow> bool" where
  "hex24 v = (case v of JStr s \<Rightarrow> length s = 24 \<and> list_all is_hex s | _ \<Rightarrow> False)"

definition hex24_new :: "val \<Rightarrow> jstring option" where
  "hex24_new v = (case v of JStr s \<Rightarrow> if hex24 v then Some (map lower s) else None | _ \<Rightarrow> None)"

definition https_url :: "val \<Rightarrow> bool" where
  "https_url v =
     (case v of JStr s \<Rightarrow> take 8 s = js ''https://'' \<and> 8 < length s \<and> \<not> list_ex is_ws s
      | _ \<Rightarrow> False)"

text \<open>
  The sample search: a pattern without metacharacters is searched as a literal, ignoring
  case; the pattern of a single full stop finds any code unit other than a line feed;
  every other pattern is rejected.
\<close>

definition sample_regex :: "jstring \<Rightarrow> (jstring \<Rightarrow> bool) option" where
  "sample_regex p =
     (if plain p then Some (contains_ci p)
      else if p = [46] then Some (list_ex (\<lambda>c. c \<noteq> 10))
      else None)"

definition sample_lib :: "jstring lib" where
  "sample_lib = \<lparr>ObjectId_isValid = hex24, ObjectId_new = hex24_new, URL_new = https_url,
     toLowerCase = map lower, ToString = (\<lambda>v. js ''[object Object]''),
     regex_i = sample_regex, limit_other = (\<lambda>n k. None)\<rparr>"

definition oid_a :: jstring where
  "oid_a = js ''65f0c0ffee0123456789abcd''"

definition oid_b :: jstring where
  "oid_b = js ''65f0c0ffee0123456789abce''"

definition tick0 :: "jstring tick" where
  "tick0 = \<lparr>store_up = True, now = 1000, gen_id = oid_a\<rparr>"

definition db0 :: "jstring db" where
  "db0 = \<lparr>jobsCollection = [], applicationsCollection = []\<rparr>"

definition body_blank_title :: object where
  "body_blank_title = map_of [(''title'', JStr (js ''  '')), (''company'', JStr (js ''Acme''))]"

definition body_company_number :: object where
  "body_company_number = map_of [(''company'', JNum 7)]"

text \<open>
  The applicant's part of an application passes validation: name, email, resume link and
  cover note are strings that are not empty after trimming, the email matches the
  pattern and the resume link parses as a URL.
\<close>

definition valid_applicant :: "'o lib \<Rightarrow> object \<Rightarrow> bool" where
  "valid_applicant L b =
     (filled (get b ''name'')
      \<and> filled (get b ''email'') \<and> RegExp_test L emailRegex (get b ''email'')
      \<and> filled (get b ''resume_link'') \<and> URL_new L (get b ''resume_link'')
      \<and> filled (get b ''cover_note''))"

text \<open>The store's unique index on \<open>_id\<close>.\<close>

definition unique_ids :: "('o \<times> 'd) list \<Rightarrow> bool" where
  "unique_ids coll = distinct (map fst coll)"

definition body_designer :: object where
  "body_designer = map_of [(''title'', JStr (js '' Brand Designer '')),
     (''company'', JStr (js ''Dropbox'')), (''location'', JStr (js ''San Francisco, US'')),
     (''category'', JStr (js ''Design'')), (''description'', JStr (js ''Design systems'')),
     (''featured'', JStr (js ''yes''))]"

definition body_apply :: "jstring \<Rightarrow> object" where
  "body_apply ref = map_of [(''job_id'', JStr ref), (''name'', JStr (js ''Ada Lovelace'')),
     (''email'', JStr (js ''ada@example.com'')),
     (''resume_link'', JStr (js ''https://example.com/cv.pdf'')),
     (''cover_note'', JStr (js ''Hello''))]"

definition job_designer :: job where
  "job_designer = \<lparr>title = js ''Brand Designer'', company = js ''Dropbox'',
     location = js ''San Francisco, US'', category = None,
     categories = Some [js ''Design'', js ''Business''],
     description = js ''Design systems'', type = JStr (js ''Full Time''),
     featured = JBool True, logo = JNull, created_at = 900\<rparr>"


definition db1 :: "jstring db" where
  "db1 = \<lparr>jobsCollection = [(oid_b, job_designer)], applicationsCollection = []\<rparr>"

text \<open>
  The two groups of conditions of the list route, in the words of the specification:
  the keyword is a case-insensitive substring of the title, the company or the
  description; the category is a case-insensitive substring of the \<open>category\<close> field
  or of an element of \<open>categories\<close>.
\<close>

definition keyword_group :: "jstring \<Rightarrow> job \<Rightarrow> bool" where
  "keyword_group k j =
     (contains_ci k (title j) \<or> contains_ci k (company j) \<or> contains_ci k (description j))"

definition category_group :: "jstring \<Rightarrow> job \<Rightarrow> bool" where
  "category_group c j =
     ((case category j of None \<Rightarrow> False | Some s \<Rightarrow> contains_ci c s)
      \<or> (case categories j of None \<Rightarrow> False | Some xs \<Rightarrow> list_ex (contains_ci c) xs))"

text \<open>The jobs that match the request's filter, newest first, before any limit.\<close>

definition sorted_matches :: "'o lib \<Rightarrow> params \<Rightarrow> 'o db \<Rightarrow> ('o \<times> job) list" where
  "sorted_matches L p d =
     cursor_sort (ByCreatedAt (- 1))
       (filter (\<lambda>x. matches L (build_query p) (snd x)) (jobsCollection d))"

text \<open>The store accepts every pattern of the request's filter.\<close>

definition patterns_accepted :: "'o lib \<Rightarrow> params \<Rightarrow> bool" where
  "patterns_accepted L p =
     list_all (\<lambda>x. regex_i L x \<noteq> None) (query_patterns (build_query p))"

definition body_email :: "jstring \<Rightarrow> object" where
  "body_email e = map_of [(''job_id'', JStr oid_b), (''name'', JStr (js ''Ada Lovelace'')),
     (''email'', JStr e), (''resume_link'', JStr (js ''https://example.com/cv.pdf'')),
     (''cover_note'', JStr (js ''Hello''))]"

definition no_params :: params where
  "no_params = \<lparr>p_keyword = None, p_location = None, p_category = None, p_featured = None,
     p_limit = None, p_sort = None\<rparr>"

definition params_design :: params where
  "params_design =
     no_params\<lparr>p_keyword := Some (js ''designer''), p_category := Some (js ''design'')\<rparr>"

definition params_dot :: params where
  "params_dot = no_params\<lparr>p_keyword := Some (js ''.''), p_category := Some (js ''design'')\<rparr>"

definition params_design_mars :: params where
  "params_design_mars = params_design\<lparr>p_location := Some (js ''Mars'')\<rparr>"

definition oid_c :: jstring where
  "oid_c = js ''65f0c0ffee0123456789abcf''"

definition job_analyst :: job where
  "job_analyst = \<lparr>title = js ''Data Analyst'', company = js ''Twitter'',
     location = js ''San Diego, US'', category = Some (js ''Technology''), categories = None,
     description = js ''Insights from datasets'', type = JStr (js ''Full Time''),
     featured = JBool False, logo = JNull, created_at = 950\<rparr>"

definition db2 :: "jstring db" where
  "db2 = \<lparr>jobsCollection = [(oid_b, job_designer), (oid_c, job_analyst)],
     applicationsCollection = []\<rparr>"

section \<open>Basic facts\<close>

lemma bindE_Inl [simp]: "bindE (Inl e) f = Inl e"
  by (simp add: bindE_def)

lemma bindE_Inr [simp]: "bindE (Inr x) f = f x"
  by (simp add: bindE_def)

section \<open>Creating a job: validation\<close>

lemma opt_trim_typed:
  "string_or_absent v \<Longrightarrow> \<exists>r. opt_trim v = Inr r \<and> blank r = absent_or_empty v"
  by (cases v) (simp_all add: string_or_absent_def opt_trim_def blank_def absent_or_empty_def)

lemma collect_missing_typed:
  "\<forall>k\<in>set ks. string_or_absent (get b k) \<Longrightarrow>
   collect_missing b ks = Inr (filter (\<lambda>k. absent_or_empty (get b k)) ks)"
proof (induction ks)
  case Nil
  then show ?case by simp
next
  case (Cons k ks)
  from Cons.prems obtain r
    where r: "opt_trim (get b k) = Inr r" "blank r = absent_or_empty (get b k)"
    using opt_trim_typed by fastforce
  from Cons have "collect_missing b ks = Inr (filter (\<lambda>k. absent_or_empty (get b k)) ks)"
    by simp
  with r show ?case by simp
qed

text \<open>
  C3, as the code has it. When the request body was parsed, each of the five required
  fields is absent, \<open>null\<close> or a string, and at least one of them is absent or empty
  after trimming, creating a job answers 400, stores nothing, and the message lists,
  after \<open>Missing required fields:\<close>, every such field in the order title, company,
  location, category, description.
\<close>

theorem post_job_missing_fields:
  assumes "\<forall>k\<in>set required_fields. string_or_absent (get b k)"
      and "\<exists>k\<in>set required_fields. absent_or_empty (get b k)"
  shows "post_api_jobs t (Some b) d =
     (respond 400 (ErrorBody (''Missing required fields: '' @
        join '', '' (filter (\<lambda>k. absent_or_empty (get b k)) required_fields))), d)"
proof -
  have "filter (\<lambda>k. absent_or_empty (get b k)) required_fields \<noteq> []"
    using assms(2) by (simp add: filter_empty_conv)
  then show ?thesis
    using collect_missing_typed [OF assms(1)]
    by (simp add: post_api_jobs_def post_api_jobs_try_def destructure_def)
qed

text \<open>
  A body with a blank title, a company and nothing else: the message names title,
  location, category and description.
\<close>

theorem post_job_missing_fields_witness:
  "post_api_jobs tick0 (Some body_blank_title) db0 =
     (respond 400
        (ErrorBody ''Missing required fields: title, location, category, description''), db0)"
  using post_job_missing_fields [of body_blank_title tick0 db0]
  by (simp add: required_fields_def body_blank_title_def get_def string_or_absent_def
      absent_or_empty_def js_def trim_def is_ws_def)

text \<open>
  C3 as the specification states it fails in two ways, both ending in the catch-all 500.
  With no title and the number 7 as company, \<open>company?.trim()\<close> throws. With
  \<open>req.body\<close> undefined, where every required field is absent, the destructuring
  throws.
\<close>

theorem post_job_missing_fields_counterexample:
  "absent_or_empty (get body_company_number ''title'')
   \<and> status (fst (post_api_jobs tick0 (Some body_company_number) db0)) = 500
   \<and> status (fst (post_api_jobs tick0 None db0)) = 500"
  by (simp add: post_api_jobs_def post_api_jobs_try_def destructure_def required_fields_def
      body_company_number_def get_def absent_or_empty_def opt_trim_def blank_def respond_def)

section \<open>Creating a job: success\<close>

lemma filled_checks:
  "filled v \<Longrightarrow> \<exists>s. v = JStr s \<and> opt_trim v = Inr (Some (trim s)) \<and> trim_call v = Inr (trim s) \<and> trim s \<noteq> []"
  by (cases v) (simp_all add: filled_def opt_trim_def trim_call_def)

lemma collect_missing_filled:
  "\<forall>k\<in>set ks. filled (get b k) \<Longrightarrow> collect_missing b ks = Inr []"
proof (induction ks)
  case Nil
  then show ?case by simp
next
  case (Cons k ks)
  from Cons.prems obtain s where "opt_trim (get b k) = Inr (Some (trim s))" "trim s \<noteq> []"
    using filled_checks by fastforce
  moreover from Cons have "collect_missing b ks = Inr []" by simp
  ultimately show ?case by (simp add: blank_def)
qed

lemma post_api_jobs_created:
  assumes "\<forall>k\<in>set required_fields. filled (get b k)"
      and "store_up t" and "gen_id t \<notin> fst ` set (jobsCollection d)"
  shows "\<exists>j. post_api_jobs t (Some b) d =
       (respond 201 (JobCreatedBody ''Job created successfully'' (gen_id t) j),
        d\<lparr>jobsCollection := jobsCollection d @ [(gen_id t, j)]\<rparr>)
     \<and> type j = or_else (get b ''type'') (JStr (js ''Full Time''))
     \<and> featured j = or_else (get b ''featured'') (JBool False)
     \<and> logo j = or_else (get b ''logo'') JNull
     \<and> created_at j = now t"
proof -
  have m: "collect_missing b required_fields = Inr []"
    using assms(1) by (rule collect_missing_filled)
  from assms(1) have f: "filled (get b ''title'')" "filled (get b ''company'')"
    "filled (get b ''location'')" "filled (get b ''category'')" "filled (get b ''description'')"
    by (simp_all add: required_fields_def)
  from f(1) obtain ti where ti: "trim_call (get b ''title'') = Inr ti" using filled_checks by blast
  from f(2) obtain co where co: "trim_call (get b ''company'') = Inr co" using filled_checks by blast
  from f(3) obtain lo where lo: "trim_call (get b ''location'') = Inr lo" using filled_checks by blast
  from f(4) obtain ca where ca: "trim_call (get b ''category'') = Inr ca" using filled_checks by blast
  from f(5) obtain de where de: "trim_call (get b ''description'') = Inr de" using filled_checks by blast
  let ?j = "\<lparr>title = ti, company = co, location = lo, category = Some ca,
     categories = None, description = de,
     type = or_else (get b ''type'') (JStr (js ''Full Time'')),
     featured = or_else (get b ''featured'') (JBool False),
     logo = or_else (get b ''logo'') JNull, created_at = now t\<rparr>"
  have "post_api_jobs t (Some b) d =
       (respond 201 (JobCreatedBody ''Job created successfully'' (gen_id t) ?j),
        d\<lparr>jobsCollection := jobsCollection d @ [(gen_id t, ?j)]\<rparr>)"
    using assms(2,3)
    by (simp add: post_api_jobs_def post_api_jobs_try_def destructure_def m ti co lo ca de insertOne_def Let_def)
  then show ?thesis
    by (intro exI [of _ ?j]) simp
qed

lemma filled_designer: "\<forall>k\<in>set required_fields. filled (get body_designer k)"
  by (simp add: required_fields_def body_designer_def get_def filled_def js_def trim_def is_ws_def)

text \<open>
  C10. When the five required fields pass validation and the insert succeeds, the stored
  job's \<open>featured\<close> is the request's \<open>featured\<close> value itself when that value is truthy
  (whatever its type) and the boolean \<open>false\<close> otherwise, also when it is absent; its
  \<open>type\<close> is the request's \<open>type\<close> when truthy and the string \<open>Full Time\<close> otherwise.
\<close>

theorem stored_featured_and_type:
  assumes "\<forall>k\<in>set required_fields. filled (get b k)"
      and "store_up t" and "gen_id t \<notin> fst ` set (jobsCollection d)"
  shows "\<exists>j. jobsCollection (snd (post_api_jobs t (Some b) d)) = jobsCollection d @ [(gen_id t, j)]
     \<and> featured j = (if truthy (get b ''featured'') then get b ''featured'' else JBool False)
     \<and> type j = (if truthy (get b ''type'') then get b ''type'' else JStr (js ''Full Time''))"
proof -
  from post_api_jobs_created [OF assms] obtain j where
    "post_api_jobs t (Some b) d =
       (respond 201 (JobCreatedBody ''Job created successfully'' (gen_id t) j),
        d\<lparr>jobsCollection := jobsCollection d @ [(gen_id t, j)]\<rparr>)"
    "type j = or_else (get b ''type'') (JStr (js ''Full Time''))"
    "featured j = or_else (get b ''featured'') (JBool False)"
    by blast
  then show ?thesis
    by (intro exI [of _ j]) (simp add: or_else_def)
qed

text \<open>
  The string \<open>yes\<close> as \<open>featured\<close> is stored as that string, and the absent \<open>type\<close>
  becomes \<open>Full Time\<close>.
\<close>

theorem stored_featured_and_type_witness:
  "\<exists>j. jobsCollection (snd (post_api_jobs tick0 (Some body_designer) db0)) = [(oid_a, j)]
     \<and> featured j = JStr (js ''yes'') \<and> type j = JStr (js ''Full Time'')"
  using stored_featured_and_type [of body_designer tick0 db0, OF filled_designer]
  by (simp add: tick0_def db0_def body_designer_def get_def truthy_def js_def)




section \<open>Deleting a job\<close>

lemma remove_first_absent:
  "distinct (map fst coll) \<Longrightarrow> i \<notin> fst ` set (remove_first i coll)"
  by (induction coll) auto

lemma remove_first_set:
  "distinct (map fst coll) \<Longrightarrow> (i, j) \<in> set coll \<Longrightarrow>
   set (remove_first i coll) = set coll - {(i, j)}"
proof (induction coll)
  case Nil
  then show ?case by simp
next
  case (Cons p ps)
  show ?case
  proof (cases "fst p = i")
    case True
    with Cons.prems have "p = (i, j)" by (cases p) (force simp: image_iff)
    moreover from Cons.prems True have "(i, j) \<notin> set ps" by (force simp: image_iff)
    ultimately show ?thesis using True by auto
  next
    case False
    with Cons show ?thesis by auto
  qed
qed

lemma unique_ids_remove_first:
  "unique_ids coll \<Longrightarrow> unique_ids (remove_first i coll)"
  unfolding unique_ids_def
proof (induction coll)
  case Nil
  then show ?case by simp
next
  case (Cons p ps)
  have "fst ` set (remove_first i ps) \<subseteq> fst ` set ps" for ps :: "('a \<times> 'b) list"
    by (induction ps) auto
  with Cons show ?case by auto
qed

lemma unique_ids_insertOne:
  "unique_ids coll \<Longrightarrow> insertOne t doc coll = Inr (i, coll') \<Longrightarrow> unique_ids coll'"
  by (auto simp: unique_ids_def insertOne_def split: if_splits)

text \<open>
  C6. With unique \<open>_id\<close>s in the jobs collection and a store that answers, deleting a job
  that is in the collection by an identifier string that denotes its \<open>_id\<close> answers 200
  and removes exactly that document; the same request again answers 404 and leaves the
  store as the first call left it.
\<close>

theorem delete_twice:
  assumes "unique_ids (jobsCollection d)" and "(i, j) \<in> set (jobsCollection d)"
      and "ObjectId_isValid L (JStr s)" and "ObjectId_new L (JStr s) = Some i"
      and "store_up t" and "store_up t'"
  shows "\<exists>d'. delete_api_jobs_id L t s d = (respond 200 (MessageBody ''Job deleted successfully''), d')
       \<and> set (jobsCollection d') = set (jobsCollection d) - {(i, j)}
       \<and> i \<notin> fst ` set (jobsCollection d')
       \<and> applicationsCollection d' = applicationsCollection d
       \<and> delete_api_jobs_id L t' s d' = (respond 404 (ErrorBody ''Job not found''), d')"
proof -
  let ?d' = "d\<lparr>jobsCollection := remove_first i (jobsCollection d)\<rparr>"
  have dist: "distinct (map fst (jobsCollection d))"
    using assms(1) by (simp add: unique_ids_def)
  have mem: "i \<in> fst ` set (jobsCollection d)"
    using assms(2) by (force simp: image_iff)
  have first: "delete_api_jobs_id L t s d =
      (respond 200 (MessageBody ''Job deleted successfully''), ?d')"
    using assms(3,4,5) mem
    by (simp add: delete_api_jobs_id_def delete_api_jobs_id_try_def new_ObjectId_def deleteOne_def)
  have gone: "i \<notin> fst ` set (jobsCollection ?d')"
    using remove_first_absent [OF dist] by simp
  have rest: "set (jobsCollection ?d') = set (jobsCollection d) - {(i, j)}"
    using remove_first_set [OF dist assms(2)] by simp
  have second: "delete_api_jobs_id L t' s ?d' = (respond 404 (ErrorBody ''Job not found''), ?d')"
    using assms(3,4,6) gone
    by (simp add: delete_api_jobs_id_def delete_api_jobs_id_try_def new_ObjectId_def deleteOne_def)
  show ?thesis
    using first gone rest second by (intro exI [of _ ?d']) simp
qed

theorem delete_twice_witness:
  "\<exists>d'. delete_api_jobs_id sample_lib tick0 oid_b db1 =
           (respond 200 (MessageBody ''Job deleted successfully''), d')
       \<and> set (jobsCollection d') = set (jobsCollection db1) - {(oid_b, job_designer)}
       \<and> oid_b \<notin> fst ` set (jobsCollection d')
       \<and> applicationsCollection d' = applicationsCollection db1
       \<and> delete_api_jobs_id sample_lib tick0 oid_b d' = (respond 404 (ErrorBody ''Job not found''), d')"
proof -
  have u: "unique_ids (jobsCollection db1)"
    by (simp add: unique_ids_def db1_def)
  have m: "(oid_b, job_designer) \<in> set (jobsCollection db1)"
    by (simp add: db1_def)
  have v: "ObjectId_isValid sample_lib (JStr oid_b)"
    by (simp add: sample_lib_def hex24_def oid_b_def js_def is_hex_def)
  have n: "ObjectId_new sample_lib (JStr oid_b) = Some oid_b"
    by (simp add: sample_lib_def hex24_new_def hex24_def oid_b_def js_def is_hex_def lower_def)
  have up: "store_up tick0"
    by (simp add: tick0_def)
  show ?thesis
    by (rule delete_twice [OF u m v n up up])
qed

section \<open>Submitting an application: the job reference\<close>

lemma fields_missing_valid:
  assumes "truthy (get b ''job_id'')" and "valid_applicant L b"
  shows "fields_missing b = Inr False"
proof -
  from assms(2) have f: "filled (get b ''name'')" "filled (get b ''email'')"
    "filled (get b ''resume_link'')" "filled (get b ''cover_note'')"
    by (simp_all add: valid_applicant_def)
  from f(1) obtain n where n: "opt_trim (get b ''name'') = Inr (Some n)" "n \<noteq> []"
    using filled_checks by blast
  from f(2) obtain e where e: "opt_trim (get b ''email'') = Inr (Some e)" "e \<noteq> []"
    using filled_checks by blast
  from f(3) obtain r where r: "opt_trim (get b ''resume_link'') = Inr (Some r)" "r \<noteq> []"
    using filled_checks by blast
  from f(4) obtain c where c: "opt_trim (get b ''cover_note'') = Inr (Some c)" "c \<noteq> []"
    using filled_checks by blast
  show ?thesis
    using assms(1) n e r c by (simp add: fields_missing_def blank_def)
qed

lemma valid_applicant_sample: "valid_applicant sample_lib (body_apply ref)"
  by (simp add: valid_applicant_def body_apply_def get_def filled_def js_def trim_def is_ws_def
      RegExp_test_def emailRegex_def not_space_at_def sample_lib_def https_url_def)

text \<open>
  C1, as the code has it. When the job reference is a non-empty string that
  \<open>ObjectId.isValid\<close> rejects and the applicant's fields pass validation, submitting the
  application answers 400 with the message \<open>Invalid job ID\<close> and stores nothing.
\<close>

theorem invalid_job_reference_400:
  assumes "get b ''job_id'' = JStr s" and "s \<noteq> []"
      and "\<not> ObjectId_isValid L (JStr s)"
      and "valid_applicant L b"
  shows "post_api_applications L t (Some b) d = (respond 400 (ErrorBody ''Invalid job ID''), d)"
proof -
  have "truthy (get b ''job_id'')" using assms(1,2) by (simp add: truthy_def)
  then have "fields_missing b = Inr False" using assms(4) by (rule fields_missing_valid)
  then show ?thesis
    using assms
    by (simp add: post_api_applications_def post_api_applications_try_def destructure_def valid_applicant_def)
qed

theorem invalid_job_reference_400_witness:
  "post_api_applications sample_lib tick0 (Some (body_apply (js ''not-an-id''))) db1 =
     (respond 400 (ErrorBody ''Invalid job ID''), db1)"
  using invalid_job_reference_400 [of "body_apply (js ''not-an-id'')" "js ''not-an-id''"
      sample_lib tick0 db1, OF _ _ _ valid_applicant_sample]
  by (simp add: body_apply_def get_def js_def sample_lib_def hex24_def)

text \<open>
  C1 as the specification states it (404, NotFoundError) fails: for the reference
  \<open>not-an-id\<close> the answer has status 400.
\<close>

theorem invalid_job_reference_counterexample:
  "get (body_apply (js ''not-an-id'')) ''job_id'' = JStr (js ''not-an-id'')
   \<and> js ''not-an-id'' \<noteq> []
   \<and> \<not> ObjectId_isValid sample_lib (JStr (js ''not-an-id''))
   \<and> valid_applicant sample_lib (body_apply (js ''not-an-id''))
   \<and> status (fst (post_api_applications sample_lib tick0 (Some (body_apply (js ''not-an-id''))) db1)) = 400"
proof -
  have "fields_missing (body_apply (js ''not-an-id'')) = Inr False"
    by (rule fields_missing_valid [OF _ valid_applicant_sample])
       (simp add: body_apply_def get_def truthy_def js_def)
  moreover have v: "valid_applicant sample_lib (body_apply (js ''not-an-id''))"
    by (rule valid_applicant_sample)
  moreover have "get (body_apply (js ''not-an-id'')) ''job_id'' = JStr (js ''not-an-id'')"
    by (simp add: body_apply_def get_def)
  moreover have "\<not> ObjectId_isValid sample_lib (JStr (js ''not-an-id''))"
    by (simp add: sample_lib_def hex24_def js_def)
  ultimately show ?thesis
    using v
    by (simp add: post_api_applications_def post_api_applications_try_def destructure_def valid_applicant_def
        respond_def js_def)
qed

text \<open>
  C5. When the job reference is a non-empty string that \<open>ObjectId.isValid\<close> accepts, the
  lookup of the ObjectId it denotes finds no job, and the applicant's fields pass
  validation, submitting the application answers 404 and stores nothing.
\<close>

theorem unknown_job_reference_404:
  assumes "get b ''job_id'' = JStr s" and "s \<noteq> []"
      and "ObjectId_isValid L (JStr s)" and "ObjectId_new L (JStr s) = Some i"
      and "findOne t i (jobsCollection d) = Inr None"
      and "valid_applicant L b"
  shows "post_api_applications L t (Some b) d = (respond 404 (ErrorBody ''Job not found''), d)"
proof -
  have "truthy (get b ''job_id'')" using assms(1,2) by (simp add: truthy_def)
  then have "fields_missing b = Inr False" using assms(6) by (rule fields_missing_valid)
  then show ?thesis
    using assms
    by (simp add: post_api_applications_def post_api_applications_try_def destructure_def valid_applicant_def
        new_ObjectId_def)
qed

theorem unknown_job_reference_404_witness:
  "post_api_applications sample_lib tick0 (Some (body_apply oid_a)) db1 =
     (respond 404 (ErrorBody ''Job not found''), db1)"
  using unknown_job_reference_404 [of "body_apply oid_a" oid_a sample_lib oid_a tick0 db1,
      OF _ _ _ _ _ valid_applicant_sample]
  by (simp add: body_apply_def get_def js_def sample_lib_def hex24_def hex24_new_def is_hex_def
      lower_def oid_a_def oid_b_def findOne_def tick0_def db1_def)

section \<open>Submitting an application: the email\<close>

lemma rmatch_no_space:
  "rmatch r s \<Longrightarrow>
   \<forall>p\<in>set r. (case p of Lit c \<Rightarrow> \<not> is_ws c | Plus q \<Rightarrow> (\<forall>x. q x \<longrightarrow> \<not> is_ws x)) \<Longrightarrow>
   \<forall>x\<in>set s. \<not> is_ws x"
  by (induction r s rule: rmatch.induct) auto

lemma emailRegex_no_space: "rmatch emailRegex s \<Longrightarrow> \<forall>x\<in>set s. \<not> is_ws x"
  by (erule rmatch_no_space) (simp add: emailRegex_def not_space_at_def is_ws_def)

text \<open>
  C9, as the code has it. When the request passes the presence check (a truthy job
  reference; name, email, resume link and cover note strings that are not empty after
  trimming) and the email begins or ends with white space, submitting the application
  answers 400 with the message \<open>Invalid email format\<close> and stores nothing: the pattern
  is tested on the email as sent, and no string with white space matches it.
\<close>

theorem untrimmed_email_rejected:
  assumes "truthy (get b ''job_id'')" and "filled (get b ''name'')"
      and "get b ''email'' = JStr e" and "trim e \<noteq> []"
      and "is_ws (hd e) \<or> is_ws (last e)"
      and "filled (get b ''resume_link'')" and "filled (get b ''cover_note'')"
  shows "post_api_applications L t (Some b) d = (respond 400 (ErrorBody ''Invalid email format''), d)"
proof -
  have ne: "e \<noteq> []" using assms(4) by (auto simp: trim_def)
  then have "hd e \<in> set e" "last e \<in> set e" by simp_all
  with assms(5) have nomatch: "\<not> rmatch emailRegex e"
    using emailRegex_no_space by blast
  from assms(2) obtain n where n: "opt_trim (get b ''name'') = Inr (Some n)" "n \<noteq> []"
    using filled_checks by blast
  from assms(6) obtain r where r: "opt_trim (get b ''resume_link'') = Inr (Some r)" "r \<noteq> []"
    using filled_checks by blast
  from assms(7) obtain c where c: "opt_trim (get b ''cover_note'') = Inr (Some c)" "c \<noteq> []"
    using filled_checks by blast
  have em: "opt_trim (get b ''email'') = Inr (Some (trim e))"
    using assms(3) by (simp add: opt_trim_def)
  have "fields_missing b = Inr False"
    using assms(1,4) n r c em by (simp add: fields_missing_def blank_def)
  then show ?thesis
    using nomatch assms(3)
    by (simp add: post_api_applications_def post_api_applications_try_def destructure_def RegExp_test_def)
qed

text \<open>
  An email with a leading space that matches the pattern once trimmed is rejected.
\<close>

theorem untrimmed_email_rejected_witness:
  "rmatch emailRegex (trim (js '' ada@example.com''))
   \<and> post_api_applications sample_lib tick0 (Some (body_email (js '' ada@example.com''))) db1 =
       (respond 400 (ErrorBody ''Invalid email format''), db1)"
proof -
  let ?b = "body_email (js '' ada@example.com'')"
  have 1: "truthy (get ?b ''job_id'')"
    by (simp add: body_email_def get_def truthy_def oid_b_def js_def)
  have 2: "filled (get ?b ''name'')" "filled (get ?b ''resume_link'')" "filled (get ?b ''cover_note'')"
    by (simp_all add: body_email_def get_def filled_def js_def trim_def is_ws_def)
  have 3: "get ?b ''email'' = JStr (js '' ada@example.com'')"
    by (simp add: body_email_def get_def)
  have 4: "trim (js '' ada@example.com'') \<noteq> []"
    by (simp add: js_def trim_def is_ws_def)
  have 5: "is_ws (hd (js '' ada@example.com'')) \<or> is_ws (last (js '' ada@example.com''))"
    by (simp add: js_def is_ws_def)
  have 6: "rmatch emailRegex (trim (js '' ada@example.com''))"
    by (simp add: js_def trim_def is_ws_def emailRegex_def not_space_at_def)
  show ?thesis
    using 6 untrimmed_email_rejected [OF 1 2(1) 3 4 5 2(2) 2(3)] by simp
qed

text \<open>
  C9 as stated, for every request whose email has leading or trailing white space, fails
  on the message: an email of two spaces, with every other field valid, stops at the
  presence check and is answered \<open>All fields are required\<close>.
\<close>

theorem untrimmed_email_counterexample:
  "get (body_email (js ''  '')) ''email'' = JStr (js ''  '')
   \<and> is_ws (hd (js ''  ''))
   \<and> truthy (get (body_email (js ''  '')) ''job_id'')
   \<and> filled (get (body_email (js ''  '')) ''name'')
   \<and> filled (get (body_email (js ''  '')) ''resume_link'')
   \<and> filled (get (body_email (js ''  '')) ''cover_note'')
   \<and> post_api_applications sample_lib tick0 (Some (body_email (js ''  ''))) db1 =
       (respond 400 (ErrorBody ''All fields are required''), db1)"
  by (simp add: post_api_applications_def post_api_applications_try_def destructure_def fields_missing_def
      body_email_def get_def truthy_def opt_trim_def blank_def js_def trim_def is_ws_def
      oid_b_def filled_def)

section \<open>Listing jobs: the filter\<close>

text \<open>\<open>contains_ci\<close> is the substring relation on the lower-cased strings.\<close>

lemma prefix_ci:
  "(map lower (take (length p) s) = map lower p) = (\<exists>v. map lower s = map lower p @ v)"
proof
  assume "map lower (take (length p) s) = map lower p"
  then have "map lower s = map lower p @ map lower (drop (length p) s)"
    by (metis append_take_drop_id map_append)
  then show "\<exists>v. map lower s = map lower p @ v" by blast
next
  assume "\<exists>v. map lower s = map lower p @ v"
  then obtain v where v: "map lower s = map lower p @ v" by blast
  have "map lower (take (length p) s) = take (length p) (map lower s)"
    by (simp add: take_map)
  also have "\<dots> = map lower p" by (simp add: v)
  finally show "map lower (take (length p) s) = map lower p" .
qed

lemma contains_ci_substring:
  "contains_ci p s = (\<exists>u v. map lower s = u @ map lower p @ v)"
proof (induction s)
  case Nil
  show ?case by auto
next
  case (Cons x xs)
  have "(\<exists>u v. map lower (x # xs) = u @ map lower p @ v) =
      ((\<exists>v. map lower (x # xs) = map lower p @ v) \<or> (\<exists>u v. map lower xs = u @ map lower p @ v))"
  proof
    assume "\<exists>u v. map lower (x # xs) = u @ map lower p @ v"
    then obtain u v where uv: "map lower (x # xs) = u @ map lower p @ v" by blast
    show "(\<exists>v. map lower (x # xs) = map lower p @ v) \<or> (\<exists>u v. map lower xs = u @ map lower p @ v)"
    proof (cases u)
      case Nil
      with uv show ?thesis by auto
    next
      case (Cons y ys)
      with uv have "map lower xs = ys @ map lower p @ v" by simp
      then show ?thesis by blast
    qed
  next
    assume "(\<exists>v. map lower (x # xs) = map lower p @ v) \<or> (\<exists>u v. map lower xs = u @ map lower p @ v)"
    then show "\<exists>u v. map lower (x # xs) = u @ map lower p @ v"
    proof
      assume "\<exists>v. map lower (x # xs) = map lower p @ v"
      then obtain v where "map lower (x # xs) = [] @ map lower p @ v" by auto
      then show ?thesis by blast
    next
      assume "\<exists>u v. map lower xs = u @ map lower p @ v"
      then obtain u v where "map lower xs = u @ map lower p @ v" by blast
      then have "map lower (x # xs) = (lower x # u) @ map lower p @ v" by simp
      then show ?thesis by blast
    qed
  qed
  then show ?case
    using Cons.IH prefix_ci [of p "x # xs"] by simp
qed

lemma sample_lib_plain: "plain x \<Longrightarrow> regex_i sample_lib x = Some (contains_ci x)"
  by (simp add: sample_lib_def sample_regex_def)

lemma designer_groups:
  "keyword_group (js ''designer'') job_designer"
  "category_group (js ''design'') job_designer"
  by (simp_all add: keyword_group_def category_group_def job_designer_def js_def lower_def)

lemma plain_samples: "plain (js ''designer'')" "plain (js ''design'')" "plain (js ''Mars'')"
  by (simp_all add: plain_def is_meta_def js_def)

text \<open>
  C2, as the code has it. Let the store's \<open>$regex\<close> search with option \<open>i\<close> be, for a
  pattern without metacharacters, the case-insensitive substring search. When the request
  has a keyword and a category, both not empty and without metacharacters, the filter
  matches a job exactly when the keyword group holds (the keyword is a case-insensitive
  substring of title, company or description) and the category group holds (the category
  is a case-insensitive substring of the category field or of an element of categories)
  and, for a request that also has a location or \<open>featured=true\<close>, the store finds the
  location in the job's location and the job is featured. Neither group overrides the
  other: the handler moves the keyword conditions under \<open>$and\<close> beside the category
  conditions.
\<close>

theorem keyword_and_category:
  assumes "\<And>x. plain x \<Longrightarrow> regex_i L x = Some (contains_ci x)"
      and "p_keyword p = Some k" and "k \<noteq> []" and "plain k"
      and "p_category p = Some c" and "c \<noteq> []" and "plain c"
  shows "matches L (build_query p) j \<longleftrightarrow>
       keyword_group k j \<and> category_group c j
       \<and> (case if_given (p_location p) of None \<Rightarrow> True | Some l \<Rightarrow> rx L l (location j))
       \<and> (if p_featured p = Some (js ''true'') then eq_match (featured j) (JBool True) else True)"
proof -
  have k: "rx L k = contains_ci k" and c: "rx L c = contains_ci c"
    using assms(1) [OF assms(4)] assms(1) [OF assms(7)] by (auto simp: rx_def)
  show ?thesis
    using assms(2,3,5,6)
    by (auto simp: build_query_def matches_def if_given_def Let_def keyword_group_def
        category_group_def str_field_def arr_field_def k c split: option.splits)
qed

text \<open>
  The keyword \<open>designer\<close> and the category \<open>design\<close> match the job whose title is
  \<open>Brand Designer\<close> and whose categories are \<open>Design\<close> and \<open>Business\<close>.
\<close>

theorem keyword_and_category_witness:
  "matches sample_lib (build_query params_design) job_designer"
proof -
  have h: "p_keyword params_design = Some (js ''designer'')" "js ''designer'' \<noteq> []"
    "p_category params_design = Some (js ''design'')" "js ''design'' \<noteq> []"
    by (simp_all add: params_design_def no_params_def js_def)
  from keyword_and_category [of sample_lib params_design "js ''designer''" "js ''design''"
      job_designer, OF sample_lib_plain h(1) h(2) plain_samples(1) h(3) h(4) plain_samples(2)]
    designer_groups
  show ?thesis
    by (simp add: params_design_def no_params_def if_given_def)
qed

text \<open>
  C2 as stated fails in two ways. With a location as well, both groups hold for the job,
  the location \<open>Mars\<close> is not found in \<open>San Francisco, US\<close>, and the filter does not
  match. With the keyword \<open>.\<close>, which the store reads as a regular expression for any
  character, the keyword is a substring of neither title, company nor description, yet
  the filter matches.
\<close>

theorem keyword_and_category_counterexample:
  "p_keyword params_design_mars = Some (js ''designer'')
   \<and> p_category params_design_mars = Some (js ''design'')
   \<and> keyword_group (js ''designer'') job_designer
   \<and> category_group (js ''design'') job_designer
   \<and> \<not> matches sample_lib (build_query params_design_mars) job_designer
   \<and> p_keyword params_dot = Some (js ''.'')
   \<and> p_category params_dot = Some (js ''design'')
   \<and> \<not> keyword_group (js ''.'') job_designer
   \<and> matches sample_lib (build_query params_dot) job_designer"
proof -
  have mars: "\<not> matches sample_lib (build_query params_design_mars) job_designer"
    using plain_samples
    by (simp add: params_design_mars_def params_design_def no_params_def build_query_def
        matches_def if_given_def Let_def rx_def sample_lib_def sample_regex_def job_designer_def)
       (simp add: js_def lower_def)
  have dot: "matches sample_lib (build_query params_dot) job_designer"
    using plain_samples
    by (simp add: params_dot_def no_params_def build_query_def matches_def if_given_def Let_def
        rx_def sample_lib_def sample_regex_def job_designer_def str_field_def arr_field_def
        plain_def is_meta_def)
       (simp add: js_def lower_def)
  have nodot: "\<not> keyword_group (js ''.'') job_designer"
    by (simp add: keyword_group_def job_designer_def js_def lower_def)
  show ?thesis
    using mars dot nodot designer_groups
    by (simp add: params_design_mars_def params_design_def params_dot_def no_params_def)
qed

section \<open>Listing jobs: order and limit\<close>

lemma cursor_sort_descending:
  "sorted_wrt (\<lambda>a b. created_at (snd b) \<le> created_at (snd a)) (cursor_sort (ByCreatedAt (- 1)) xs)"
proof -
  have "sorted (map (\<lambda>x. - created_at (snd x)) (sort_key (\<lambda>x. - created_at (snd x)) xs))"
    by (rule sorted_sort_key)
  then show ?thesis by (simp add: sorted_map)
qed

lemma cursor_limit_prefix:
  "cursor_limit L n xs = Inr ys \<Longrightarrow> \<exists>m. ys = take m xs"
  by (auto simp: cursor_limit_def split: jsnum.splits if_splits option.splits intro: exI [of _ "length xs"])

lemma get_all_db2:
  "get_api_jobs sample_lib tick0 (no_params\<lparr>p_sort := s\<rparr>) db2 =
     respond 200 (JobsBody [(oid_c, job_analyst), (oid_b, job_designer)] 2)"
  by (simp add: get_api_jobs_def find_sort_limit_def build_query_def sortOption_def limitNum_def
      no_params_def if_given_def matches_def query_patterns_def cursor_limit_def tick0_def db2_def
      job_analyst_def job_designer_def Let_def numeral_2_eq_2)

text \<open>
  C7. The answer of the list route does not depend on the \<open>sort\<close> parameter, whatever
  its value, present or absent; and whenever the route answers 200, the jobs it returns
  are in descending order of \<open>created_at\<close>.
\<close>

theorem sort_parameter_ignored:
  "get_api_jobs L t (p\<lparr>p_sort := s\<rparr>) d = get_api_jobs L t p d
   \<and> (\<forall>res n. get_api_jobs L t p d = respond 200 (JobsBody res n) \<longrightarrow>
         sorted_wrt (\<lambda>a b. created_at (snd b) \<le> created_at (snd a)) res)"
proof
  show "get_api_jobs L t (p\<lparr>p_sort := s\<rparr>) d = get_api_jobs L t p d"
    by (simp add: get_api_jobs_def sortOption_def build_query_def limitNum_def)
next
  show "\<forall>res n. get_api_jobs L t p d = respond 200 (JobsBody res n) \<longrightarrow>
         sorted_wrt (\<lambda>a b. created_at (snd b) \<le> created_at (snd a)) res"
  proof (intro allI impI)
    fix res n
    assume r: "get_api_jobs L t p d = respond 200 (JobsBody res n)"
    let ?all = "cursor_sort (ByCreatedAt (- 1))
        (filter (\<lambda>x. matches L (build_query p) (snd x)) (jobsCollection d))"
    from r have "cursor_limit L (limitNum p) ?all = Inr res"
      by (auto simp: get_api_jobs_def find_sort_limit_def sortOption_def respond_def
          split: sum.splits if_splits)
    then obtain m where "res = take m ?all"
      using cursor_limit_prefix by blast
    then show "sorted_wrt (\<lambda>a b. created_at (snd b) \<le> created_at (snd a)) res"
      using cursor_sort_descending [of "filter (\<lambda>x. matches L (build_query p) (snd x)) (jobsCollection d)"]
      by (simp add: sorted_wrt_take)
  qed
qed

text \<open>
  With \<open>sort=oldest\<close> the newer job still comes first, as without the parameter.
\<close>

theorem sort_parameter_ignored_witness:
  "get_api_jobs sample_lib tick0 (no_params\<lparr>p_sort := Some (js ''oldest'')\<rparr>) db2 =
     respond 200 (JobsBody [(oid_c, job_analyst), (oid_b, job_designer)] 2)
   \<and> get_api_jobs sample_lib tick0 (no_params\<lparr>p_sort := Some (js ''oldest'')\<rparr>) db2 =
       get_api_jobs sample_lib tick0 no_params db2
   \<and> sorted_wrt (\<lambda>a b. created_at (snd b) \<le> created_at (snd a))
        [(oid_c, job_analyst), (oid_b, job_designer)]"
proof -
  have r: "get_api_jobs sample_lib tick0 no_params db2 =
     respond 200 (JobsBody [(oid_c, job_analyst), (oid_b, job_designer)] 2)"
    using get_all_db2 [of None] by (simp add: no_params_def)
  from sort_parameter_ignored [where L = sample_lib and t = tick0 and p = no_params
      and s = "Some (js ''oldest'')" and d = db2] r
  show ?thesis by metis
qed

lemma is_digit_10: "is_digit 10 c = (48 \<le> c \<and> c \<le> 57)"
  by (auto simp: is_digit_def digit_of_def)

lemma digit_not_ws: "is_digit 10 c \<Longrightarrow> \<not> is_ws c"
  by (auto simp: is_digit_10 is_ws_def)

lemma parseInt_numeral:
  assumes "ds \<noteq> []" and "list_all (is_digit 10) ds"
  shows "parseInt ds = Fin (int (digits_value 10 ds))"
proof -
  from assms obtain c r where ds: "ds = c # r" by (cases ds) auto
  with assms(2) have c: "is_digit 10 c" and r: "list_all (is_digit 10) r" by simp_all
  from c have c1: "\<not> is_ws c" "c \<noteq> 43" "c \<noteq> 45" by (auto simp: is_digit_10 is_ws_def)
  have nohex: "\<not> (case ds of a # b # r \<Rightarrow> a = 48 \<and> (b = 120 \<or> b = 88) | _ \<Rightarrow> False)"
    using r ds by (cases r) (auto simp: is_digit_10)
  have tw: "takeWhile (is_digit 10) ds = ds"
    using assms(2) by (simp add: list_all_iff takeWhile_eq_all_conv)
  show ?thesis
    using c1 nohex tw assms(1) unfolding parseInt_def Let_def
    by (simp add: ds)
qed

lemma parseInt_Nil: "parseInt [] = NaN"
  by (simp add: parseInt_def)

lemma get_api_jobs_limited:
  assumes "store_up t" and "patterns_accepted L p"
      and "cursor_limit L (limitNum p) (sorted_matches L p d) = Inr res"
  shows "get_api_jobs L t p d = respond 200 (JobsBody res (length res))"
  using assms
  by (simp add: get_api_jobs_def find_sort_limit_def sortOption_def patterns_accepted_def
      sorted_matches_def)

lemma sorted_matches_db2:
  "sorted_matches sample_lib (no_params\<lparr>p_limit := l\<rparr>) db2 =
     [(oid_c, job_analyst), (oid_b, job_designer)]"
  by (simp add: sorted_matches_def build_query_def no_params_def if_given_def matches_def db2_def
      job_analyst_def job_designer_def Let_def)

lemma patterns_accepted_no_params: "patterns_accepted sample_lib (no_params\<lparr>p_limit := l\<rparr>)"
  by (simp add: patterns_accepted_def build_query_def no_params_def if_given_def
      query_patterns_def Let_def)

lemma parseInt_samples:
  "parseInt (js ''1'') = Fin 1" "parseInt (js ''1.5'') = Fin 1"
  by (simp_all add: parseInt_def js_def is_ws_def is_digit_def digit_of_def digits_value_def Let_def)

text \<open>
  C8, as the code has it. For a store that answers and accepts the filter's patterns:
  when the \<open>limit\<close> parameter is absent, empty, or read by \<open>parseInt\<close> as 0, the route
  returns all matching jobs in sort order; when \<open>parseInt\<close> reads it as a positive
  \<open>n\<close> below \<open>2^53\<close>, the route returns the first \<open>n\<close> of them; and \<open>parseInt\<close> reads
  a string of decimal digits as the number it denotes. (\<open>parseInt\<close> also reads a number
  from a string that only begins with one.)
\<close>

theorem limit_parameter:
  assumes "store_up t" and "patterns_accepted L p"
  shows "(p_limit p = None \<or> p_limit p = Some [] \<or> (\<exists>l. p_limit p = Some l \<and> parseInt l = Fin 0)
          \<longrightarrow> get_api_jobs L t p d =
              respond 200 (JobsBody (sorted_matches L p d) (length (sorted_matches L p d))))
       \<and> (\<forall>l n. p_limit p = Some l \<and> parseInt l = Fin n \<and> 0 < n \<and> n < 2 ^ 53
          \<longrightarrow> get_api_jobs L t p d =
              respond 200 (JobsBody (take (nat n) (sorted_matches L p d))
                             (length (take (nat n) (sorted_matches L p d)))))
       \<and> (\<forall>l. l \<noteq> [] \<and> list_all (is_digit 10) l \<longrightarrow> parseInt l = Fin (int (digits_value 10 l)))"
proof (intro conjI allI impI)
  assume "p_limit p = None \<or> p_limit p = Some [] \<or> (\<exists>l. p_limit p = Some l \<and> parseInt l = Fin 0)"
  then have "limitNum p = Fin 0"
    by (auto simp: limitNum_def if_given_def)
  then have "cursor_limit L (limitNum p) (sorted_matches L p d) = Inr (sorted_matches L p d)"
    by (simp add: cursor_limit_def)
  from get_api_jobs_limited [OF assms this]
  show "get_api_jobs L t p d =
      respond 200 (JobsBody (sorted_matches L p d) (length (sorted_matches L p d)))" .
next
  fix l n
  assume a: "p_limit p = Some l \<and> parseInt l = Fin n \<and> 0 < n \<and> n < 2 ^ 53"
  then have "l \<noteq> []" using parseInt_Nil by auto
  with a have "limitNum p = Fin n"
    by (simp add: limitNum_def if_given_def)
  with a have "cursor_limit L (limitNum p) (sorted_matches L p d) =
      Inr (take (nat n) (sorted_matches L p d))"
    by (simp add: cursor_limit_def)
  from get_api_jobs_limited [OF assms this]
  show "get_api_jobs L t p d =
      respond 200 (JobsBody (take (nat n) (sorted_matches L p d))
                     (length (take (nat n) (sorted_matches L p d))))" .
next
  fix l :: jstring
  assume "l \<noteq> [] \<and> list_all (is_digit 10) l"
  then show "parseInt l = Fin (int (digits_value 10 l))"
    using parseInt_numeral by blast
qed

theorem limit_parameter_witness:
  "get_api_jobs sample_lib tick0 (no_params\<lparr>p_limit := Some (js ''1'')\<rparr>) db2 =
     respond 200 (JobsBody [(oid_c, job_analyst)] 1)
   \<and> get_api_jobs sample_lib tick0 (no_params\<lparr>p_limit := None\<rparr>) db2 =
     respond 200 (JobsBody [(oid_c, job_analyst), (oid_b, job_designer)] 2)"
proof -
  have up: "store_up tick0" by (simp add: tick0_def)
  have one: "p_limit (no_params\<lparr>p_limit := Some (js ''1'')\<rparr>) = Some (js ''1'')
      \<and> parseInt (js ''1'') = Fin 1 \<and> (0::int) < 1 \<and> (1::int) < 2 ^ 53"
    by (simp add: parseInt_samples)
  have none: "p_limit (no_params\<lparr>p_limit := None\<rparr>) = None" by simp
  from limit_parameter [OF up patterns_accepted_no_params, of "Some (js ''1'')" db2] one
  have "get_api_jobs sample_lib tick0 (no_params\<lparr>p_limit := Some (js ''1'')\<rparr>) db2 =
     respond 200 (JobsBody [(oid_c, job_analyst)] 1)"
    by (simp add: sorted_matches_db2)
  moreover
  from limit_parameter [OF up patterns_accepted_no_params, of None db2] none
  have "get_api_jobs sample_lib tick0 (no_params\<lparr>p_limit := None\<rparr>) db2 =
     respond 200 (JobsBody [(oid_c, job_analyst), (oid_b, job_designer)] 2)"
    by (simp add: sorted_matches_db2 numeral_2_eq_2)
  ultimately show ?thesis by simp
qed

text \<open>
  C8 as stated fails for a limit that is not a positive integer but begins with one:
  \<open>limit=1.5\<close> is read as 1, and of the two matching jobs only the first is returned.
\<close>

theorem limit_parameter_counterexample:
  "\<not> list_all (is_digit 10) (js ''1.5'')
   \<and> get_api_jobs sample_lib tick0 (no_params\<lparr>p_limit := Some (js ''1.5'')\<rparr>) db2 =
       respond 200 (JobsBody [(oid_c, job_analyst)] 1)
   \<and> sorted_matches sample_lib (no_params\<lparr>p_limit := Some (js ''1.5'')\<rparr>) db2 =
       [(oid_c, job_analyst), (oid_b, job_designer)]"
proof -
  have "limitNum (no_params\<lparr>p_limit := Some (js ''1.5'')\<rparr>) = Fin 1"
    by (simp add: limitNum_def if_given_def parseInt_samples) (simp add: js_def)
  then have "cursor_limit sample_lib (limitNum (no_params\<lparr>p_limit := Some (js ''1.5'')\<rparr>))
      (sorted_matches sample_lib (no_params\<lparr>p_limit := Some (js ''1.5'')\<rparr>) db2) =
      Inr [(oid_c, job_analyst)]"
    by (simp add: cursor_limit_def sorted_matches_db2)
  from get_api_jobs_limited [OF _ patterns_accepted_no_params this]
  have "get_api_jobs sample_lib tick0 (no_params\<lparr>p_limit := Some (js ''1.5'')\<rparr>) db2 =
       respond 200 (JobsBody [(oid_c, job_analyst)] 1)"
    by (simp add: tick0_def)
  moreover have "\<not> list_all (is_digit 10) (js ''1.5'')"
    by (simp add: js_def is_digit_def digit_of_def)
  ultimately show ?thesis
    by (simp add: sorted_matches_db2)
qed

end
